theory Spec2Isabelle
  imports Complex_Main "HOL-Library.Log_Nat"
begin

unbundle bit_operations_syntax

section \<open>Belief rule base (brb.py): a shallow embedding\<close>

text \<open>
  The development follows \<^verbatim>\<open>src/brb/brb.py\<close>: the three classes
  \<^verbatim>\<open>AttributeInput\<close>, \<^verbatim>\<open>Rule\<close> and \<^verbatim>\<open>RuleBaseModel\<close> become records, each method
  becomes a function that returns either the exception it raises (\<open>Inl\<close>) or its result
  (\<open>Inr\<close>), and a method that mutates \<^verbatim>\<open>self\<close> returns the updated record.

  Modelling decisions. A \<^verbatim>\<open>Dict[str, T]\<close> is an association list in the dictionary's
  iteration order; \<open>map_of\<close> is the lookup. A Python float is a binary64 value: a finite
  number, an infinity or NaN, and division rounds to nearest, ties to even; the sign of
  a zero is not kept, and the finite floats given to the functions are taken to be
  binary64 numbers. The \<^verbatim>\<open>assert\<close> statements are enabled (the
  interpreter is not run with \<^verbatim>\<open>-O\<close>). The parameter types are those of the annotations:
  attribute names are \<^verbatim>\<open>str\<close>, weights are \<^verbatim>\<open>float\<close>, and a value annotated \<^verbatim>\<open>Any\<close> is one of
  the data values of type \<open>pyval\<close> below. The annotation \<^verbatim>\<open>Tuple\<close> of
  \<^verbatim>\<open>AttributeInput.__init__\<close> is not imported by the module; the model describes the
  bodies of the functions, as they run when annotations are not evaluated at definition
  time.
\<close>

subsection \<open>Python values, equality and exceptions\<close>

text \<open>
  A \<^verbatim>\<open>float\<close>: a finite value, written as the real number it denotes, or one of the special
  values \<^verbatim>\<open>inf\<close>, \<^verbatim>\<open>-inf\<close> and \<^verbatim>\<open>nan\<close>.
\<close>

datatype pyfloat =
    Finite real
  | PosInf
  | NegInf
  | NaN

datatype pyval =
    PNone
  | PBool bool
  | PInt int
  | PFloat pyfloat
  | PStr string
  | PTuple "pyval list"

text \<open>
  The objects that meet in a membership test \<^verbatim>\<open>x in xs\<close> of the module: a data value, or
  the view that \<^verbatim>\<open>dict.keys()\<close> returns for a dictionary keyed by strings.
\<close>

datatype pyobj =
    Val pyval
  | DictKeys "string list"

text \<open>
  The exceptions the module can raise. A bare \<^verbatim>\<open>assert c\<close> raises \<^verbatim>\<open>AssertionError()\<close>,
  whose \<^verbatim>\<open>args\<close> are empty; \<^verbatim>\<open>assert c, msg\<close> would carry \<^verbatim>\<open>msg\<close>. A failed lookup
  \<^verbatim>\<open>d[k]\<close> raises \<^verbatim>\<open>KeyError(k)\<close>. The interpreter's own messages of the other
  exceptions are not modelled.
\<close>

datatype error =
    AssertionError "pyval list"
  | KeyError pyval
  | TypeError
  | ZeroDivisionError
  | ValueError

text \<open>The number a \<^verbatim>\<open>bool\<close>, \<^verbatim>\<open>int\<close> or \<^verbatim>\<open>float\<close> stands for.\<close>

fun py_num :: "pyval \<Rightarrow> pyfloat option" where
  "py_num (PBool b) = Some (Finite (if b then 1 else 0))"
| "py_num (PInt i) = Some (Finite (of_int i))"
| "py_num (PFloat x) = Some x"
| "py_num _ = None"

text \<open>\<^verbatim>\<open>==\<close> on numbers: \<^verbatim>\<open>nan\<close> equals nothing, itself included.\<close>

fun float_eq :: "pyfloat \<Rightarrow> pyfloat \<Rightarrow> bool" where
  "float_eq (Finite a) (Finite b) = (a = b)"
| "float_eq PosInf PosInf = True"
| "float_eq NegInf NegInf = True"
| "float_eq _ _ = False"

text \<open>
  Python's \<^verbatim>\<open>==\<close> on data values: numbers compare by value across \<^verbatim>\<open>bool\<close>, \<^verbatim>\<open>int\<close>
  and \<^verbatim>\<open>float\<close>, strings and \<^verbatim>\<open>None\<close> with their own kind, tuples element by element;
  values of different kinds are unequal.
\<close>

fun py_eq :: "pyval \<Rightarrow> pyval \<Rightarrow> bool"
  and py_eq_list :: "pyval list \<Rightarrow> pyval list \<Rightarrow> bool" where
  "py_eq PNone PNone = True"
| "py_eq (PStr a) (PStr b) = (a = b)"
| "py_eq (PTuple xs) (PTuple ys) = py_eq_list xs ys"
| "py_eq x y = (case (py_num x, py_num y) of (Some a, Some b) \<Rightarrow> float_eq a b | _ \<Rightarrow> False)"
| "py_eq_list [] [] = True"
| "py_eq_list (x # xs) (y # ys) = (py_eq x y \<and> py_eq_list xs ys)"
| "py_eq_list _ _ = False"

text \<open>
  \<^verbatim>\<open>==\<close> on objects. A \<^verbatim>\<open>dict_keys\<close> view equals another view with the same keys; compared
  with a value that is not a set or a view, both \<^verbatim>\<open>__eq__\<close> methods return
  \<^verbatim>\<open>NotImplemented\<close> and the comparison falls back to identity, which is false.
\<close>

fun py_obj_eq :: "pyobj \<Rightarrow> pyobj \<Rightarrow> bool" where
  "py_obj_eq (Val a) (Val b) = py_eq a b"
| "py_obj_eq (DictKeys a) (DictKeys b) = (set a = set b)"
| "py_obj_eq _ _ = False"

text \<open>
  \<^verbatim>\<open>x in xs\<close> for a list \<^verbatim>\<open>xs\<close>: some element equals \<^verbatim>\<open>x\<close>. (The interpreter also accepts
  an element that is the very object \<^verbatim>\<open>x\<close>; for the values here that differs from \<^verbatim>\<open>==\<close>
  only when \<^verbatim>\<open>x\<close> is a \<^verbatim>\<open>nan\<close>, a case the model, which has values and no object
  identities, answers by \<^verbatim>\<open>==\<close>.)
\<close>

definition py_in :: "pyobj \<Rightarrow> pyobj list \<Rightarrow> bool" where
  "py_in x xs = list_ex (\<lambda>y. py_obj_eq y x) xs"

text \<open>
  \<^verbatim>\<open>x ^ y\<close>: bitwise exclusive or, defined on \<^verbatim>\<open>bool\<close> and \<^verbatim>\<open>int\<close> only. With a \<^verbatim>\<open>float\<close>,
  \<^verbatim>\<open>str\<close>, \<^verbatim>\<open>tuple\<close> or \<^verbatim>\<open>None\<close> operand neither \<^verbatim>\<open>__xor__\<close> nor \<^verbatim>\<open>__rxor__\<close> applies and the
  interpreter raises \<^verbatim>\<open>TypeError\<close>.
\<close>

fun py_xor :: "pyval \<Rightarrow> pyval \<Rightarrow> error + pyval" where
  "py_xor (PBool a) (PBool b) = Inr (PBool (a \<noteq> b))"
| "py_xor (PBool a) (PInt j) = Inr (PInt ((if a then 1 else 0) XOR j))"
| "py_xor (PInt i) (PBool b) = Inr (PInt (i XOR (if b then 1 else 0)))"
| "py_xor (PInt i) (PInt j) = Inr (PInt (i XOR j))"
| "py_xor _ _ = Inl TypeError"

text \<open>
  Rounding a real number to binary64, to nearest and ties to even. \<open>ilog2 a\<close> is the
  exponent of a positive \<open>a\<close>, the integer \<open>e\<close> with \<open>2 ^ e \<le> a < 2 ^ (e + 1)\<close>; below
  \<open>2 ^ - 1022\<close> the numbers are subnormal and keep the exponent \<open>- 1022\<close>. The significand
  has 53 bits, so the spacing of the floats around \<open>a\<close> is \<open>2 ^ (e - 52)\<close>; a result of
  \<open>2 ^ 1024\<close> or more is an infinity.
\<close>

definition round_half_even :: "real \<Rightarrow> int" where
  "round_half_even x =
     (let f = \<lfloor>x\<rfloor>; r = x - of_int f
      in if r < 1 / 2 then f else if 1 / 2 < r then f + 1 else if even f then f else f + 1)"

definition ilog2 :: "real \<Rightarrow> int" where
  "ilog2 a = (if 1 \<le> a then bitlen \<lfloor>a\<rfloor> - 1 else - bitlen (\<lceil>1 / a\<rceil> - 1))"

definition fl64 :: "real \<Rightarrow> pyfloat" where
  "fl64 x =
     (if x = 0 then Finite 0
      else let a = \<bar>x\<bar>; e = max (ilog2 a) (- 1022); q = 2 powi (e - 52);
               n = round_half_even (a / q)
           in if 1023 < e \<or> (e = 1023 \<and> n = 2 ^ 53) then (if 0 < x then PosInf else NegInf)
              else Finite (sgn x * (of_int n * q)))"

text \<open>
  The quotient of two floats for a divisor that is not zero, as IEEE 754 gives it:
  \<^verbatim>\<open>nan\<close> for a \<^verbatim>\<open>nan\<close> operand and for two infinities, zero for a finite number over an
  infinity, an infinity for an infinity over a finite number, and the rounded quotient
  for two finite numbers.
\<close>

fun float_div :: "pyfloat \<Rightarrow> pyfloat \<Rightarrow> pyfloat" where
  "float_div NaN _ = NaN"
| "float_div _ NaN = NaN"
| "float_div (Finite a) (Finite b) = fl64 (a / b)"
| "float_div (Finite a) _ = Finite 0"
| "float_div PosInf (Finite b) = (if 0 < b then PosInf else NegInf)"
| "float_div NegInf (Finite b) = (if 0 < b then NegInf else PosInf)"
| "float_div _ _ = NaN"

text \<open>
  \<^verbatim>\<open>a / b\<close> on floats: \<^verbatim>\<open>ZeroDivisionError\<close> for a zero divisor, whatever the dividend, and
  the IEEE quotient otherwise.
\<close>

definition py_truediv :: "pyfloat \<Rightarrow> pyfloat \<Rightarrow> error + pyfloat" where
  "py_truediv a b = (if b = Finite 0 then Inl ZeroDivisionError else Inr (float_div a b))"

text \<open>\<^verbatim>\<open>a > b\<close> on floats: false whenever an operand is \<^verbatim>\<open>nan\<close>.\<close>

fun py_gt :: "pyfloat \<Rightarrow> pyfloat \<Rightarrow> bool" where
  "py_gt NaN _ = False"
| "py_gt _ NaN = False"
| "py_gt (Finite a) (Finite b) = (b < a)"
| "py_gt PosInf PosInf = False"
| "py_gt PosInf _ = True"
| "py_gt _ PosInf = False"
| "py_gt NegInf _ = False"
| "py_gt _ NegInf = True"

text \<open>
  \<^verbatim>\<open>max(xs)\<close> raises \<^verbatim>\<open>ValueError\<close> on an empty sequence; otherwise it starts from the first
  item and moves to a later item when that item is greater than the current maximum.
\<close>

fun py_max :: "pyfloat list \<Rightarrow> error + pyfloat" where
  "py_max [] = Inl ValueError"
| "py_max (x # xs) = Inr (fold (\<lambda>item maxitem. if py_gt item maxitem then item else maxitem) xs x)"

text \<open>\<^verbatim>\<open>d[k]\<close> for a dictionary keyed by strings.\<close>

definition getitem :: "(string \<times> 'a) list \<Rightarrow> string \<Rightarrow> error + 'a" where
  "getitem d k = (case map_of d k of None \<Rightarrow> Inl (KeyError (PStr k)) | Some v \<Rightarrow> Inr v)"

definition keys :: "('k \<times> 'a) list \<Rightarrow> 'k list" where
  "keys d = map fst d"

definition dict_values :: "('k \<times> 'a) list \<Rightarrow> 'a list" where
  "dict_values d = map snd d"

text \<open>
  \<^verbatim>\<open>np.prod\<close> of a list. The empty product is the float \<^verbatim>\<open>1.0\<close>. The elements of a
  non-empty list come from \<open>py_xor\<close>, so they are \<^verbatim>\<open>bool\<close>s and \<^verbatim>\<open>int\<close>s, which numpy
  multiplies as integers (the fixed width of numpy's integers is not modelled); a list
  with another kind of element is outside the model and reported as \<^verbatim>\<open>TypeError\<close>.
\<close>

fun int_of_pyval :: "pyval \<Rightarrow> int option" where
  "int_of_pyval (PBool b) = Some (if b then 1 else 0)"
| "int_of_pyval (PInt i) = Some i"
| "int_of_pyval _ = None"

fun prod_ints :: "pyval list \<Rightarrow> int option" where
  "prod_ints [] = Some 1"
| "prod_ints (x # xs) =
     (case int_of_pyval x of None \<Rightarrow> None
      | Some i \<Rightarrow> (case prod_ints xs of None \<Rightarrow> None | Some p \<Rightarrow> Some (i * p)))"

definition np_prod :: "pyval list \<Rightarrow> error + pyval" where
  "np_prod xs =
     (if xs = [] then Inr (PFloat (Finite 1))
      else case prod_ints xs of None \<Rightarrow> Inl TypeError | Some p \<Rightarrow> Inr (PInt p))"

text \<open>
  A \<^verbatim>\<open>for\<close> loop whose body is one bare \<^verbatim>\<open>assert\<close>: the first element that fails the test
  raises, the later ones are not visited.
\<close>

fun assert_all :: "('a \<Rightarrow> bool) \<Rightarrow> 'a list \<Rightarrow> error + unit" where
  "assert_all P [] = Inr ()"
| "assert_all P (x # xs) = (if P x then assert_all P xs else Inl (AssertionError []))"

subsection \<open>\<^verbatim>\<open>AttributeInput\<close>\<close>

record AttributeInput =
  attr_input :: "(string \<times> pyval) list"

text \<open>\<^verbatim>\<open>AttributeInput.__init__\<close>: one assignment.\<close>

definition AttributeInput_init :: "(string \<times> pyval) list \<Rightarrow> error + AttributeInput" where
  "AttributeInput_init ai = Inr \<lparr>attr_input = ai\<rparr>"

subsection \<open>\<^verbatim>\<open>Rule\<close>\<close>

record Rule =
  A_values :: "(string \<times> pyval) list"
  delta :: "(string \<times> pyfloat) list"
  theta :: pyfloat
  beta :: "(pyval \<times> pyval) list"

text \<open>
  \<^verbatim>\<open>Rule.__init__\<close>: every key of \<^verbatim>\<open>A_values\<close> must be a key of \<^verbatim>\<open>delta\<close>, then the four
  fields are stored.
\<close>

definition Rule_init ::
  "(string \<times> pyval) list \<Rightarrow> (string \<times> pyfloat) list \<Rightarrow> pyfloat \<Rightarrow> (pyval \<times> pyval) list \<Rightarrow> error + Rule" where
  "Rule_init av dl th be =
     (case assert_all (\<lambda>U_i. U_i \<in> set (keys dl)) (keys av) of
        Inl e \<Rightarrow> Inl e
      | Inr _ \<Rightarrow> Inr \<lparr>A_values = av, delta = dl, theta = th, beta = be\<rparr>)"

text \<open>
  \<^verbatim>\<open>Rule._assert_input\<close>: the rule's attributes intersected with the input's attributes
  must be the rule's attributes.
\<close>

definition assert_input :: "Rule \<Rightarrow> AttributeInput \<Rightarrow> error + unit" where
  "assert_input r X =
     (let rule_attributes = set (keys (A_values r));
          input_attributes = set (keys (attr_input X))
      in if rule_attributes \<inter> input_attributes = rule_attributes then Inr ()
         else Inl (AssertionError []))"

text \<open>
  Line 49, the dictionary comprehension
  \<^verbatim>\<open>{attr: d / max(self.delta.values()) for attr, d in self.delta.items()}\<close>.
  The maximum is taken anew for every item, over all the values of \<^verbatim>\<open>delta\<close>; for an
  empty \<^verbatim>\<open>delta\<close> the body never runs. The first argument is the dictionary whose
  values are maximised, the second the items still to visit.
\<close>

fun norm_delta_items ::
  "(string \<times> pyfloat) list \<Rightarrow> (string \<times> pyfloat) list \<Rightarrow> error + (string \<times> pyfloat) list" where
  "norm_delta_items dl [] = Inr []"
| "norm_delta_items dl ((attr, d) # rest) =
     (case py_max (dict_values dl) of Inl e \<Rightarrow> Inl e
      | Inr m \<Rightarrow>
         (case py_truediv d m of Inl e \<Rightarrow> Inl e
          | Inr q \<Rightarrow>
             (case norm_delta_items dl rest of Inl e \<Rightarrow> Inl e
              | Inr nd \<Rightarrow> Inr ((attr, q) # nd))))"

definition norm_delta :: "(string \<times> pyfloat) list \<Rightarrow> error + (string \<times> pyfloat) list" where
  "norm_delta dl = norm_delta_items dl dl"

text \<open>
  Line 50, the list comprehension
  \<^verbatim>\<open>[X.attr_input[attr] ^ norm_delta[attr] for attr in self.A_values.keys()]\<close>:
  the left operand is looked up first, then the right one, then \<^verbatim>\<open>^\<close> is applied.
\<close>

fun weighted_alpha ::
  "(string \<times> pyval) list \<Rightarrow> (string \<times> pyfloat) list \<Rightarrow> string list \<Rightarrow> error + pyval list" where
  "weighted_alpha ai nd [] = Inr []"
| "weighted_alpha ai nd (attr # rest) =
     (case getitem ai attr of Inl e \<Rightarrow> Inl e
      | Inr x \<Rightarrow>
         (case getitem nd attr of Inl e \<Rightarrow> Inl e
          | Inr n \<Rightarrow>
             (case py_xor x (PFloat n) of Inl e \<Rightarrow> Inl e
              | Inr w \<Rightarrow>
                 (case weighted_alpha ai nd rest of Inl e \<Rightarrow> Inl e
                  | Inr ws \<Rightarrow> Inr (w # ws)))))"

text \<open>\<^verbatim>\<open>Rule.get_matching_degree\<close>.\<close>

definition get_matching_degree :: "Rule \<Rightarrow> AttributeInput \<Rightarrow> error + pyval" where
  "get_matching_degree r X =
     (case assert_input r X of Inl e \<Rightarrow> Inl e
      | Inr _ \<Rightarrow>
         (case norm_delta (delta r) of Inl e \<Rightarrow> Inl e
          | Inr nd \<Rightarrow>
             (case weighted_alpha (attr_input X) nd (keys (A_values r)) of Inl e \<Rightarrow> Inl e
              | Inr ws \<Rightarrow> np_prod ws)))"

subsection \<open>\<^verbatim>\<open>RuleBaseModel\<close>\<close>

record RuleBaseModel =
  U :: "string list"
  A :: "(string \<times> pyval list) list"
  D :: "pyval list"
  F :: pyval
  rules :: "Rule list"

text \<open>\<^verbatim>\<open>RuleBaseModel.__init__\<close>: the vocabulary is stored and the rule list starts empty.\<close>

definition RuleBaseModel_init ::
  "string list \<Rightarrow> (string \<times> pyval list) list \<Rightarrow> pyval list \<Rightarrow> pyval \<Rightarrow> error + RuleBaseModel" where
  "RuleBaseModel_init us doms ds f = Inr \<lparr>U = us, A = doms, D = ds, F = f, rules = []\<rparr>"

text \<open>
  The loop of lines 93--94 of \<^verbatim>\<open>add_rule\<close>:
  \<^verbatim>\<open>for U_i, A_i in new_rule.A_values.items(): assert A_i in self.A[U_i]\<close>.
\<close>

fun check_A_values :: "(string \<times> pyval list) list \<Rightarrow> (string \<times> pyval) list \<Rightarrow> error + unit" where
  "check_A_values doms [] = Inr ()"
| "check_A_values doms ((U_i, A_i) # rest) =
     (case getitem doms U_i of Inl e \<Rightarrow> Inl e
      | Inr dom_i \<Rightarrow>
         if py_in (Val A_i) (map Val dom_i) then check_A_values doms rest
         else Inl (AssertionError []))"

text \<open>
  \<^verbatim>\<open>RuleBaseModel.add_rule\<close>. The first test is the single membership test
  \<^verbatim>\<open>new_rule.A_values.keys() in self.U\<close> of line 90: the view of the keys, as one object,
  is looked for among the attribute names. On an exception the model is left as it was,
  so only the success case returns a model.
\<close>

definition add_rule :: "RuleBaseModel \<Rightarrow> Rule \<Rightarrow> error + RuleBaseModel" where
  "add_rule self new_rule =
     (if \<not> py_in (DictKeys (keys (A_values new_rule))) (map (Val \<circ> PStr) (U self))
      then Inl (AssertionError [])
      else case check_A_values (A self) (A_values new_rule) of Inl e \<Rightarrow> Inl e
      | Inr _ \<Rightarrow>
         (case assert_all (\<lambda>D_n. py_in (Val D_n) (map Val (D self))) (keys (beta new_rule)) of
            Inl e \<Rightarrow> Inl e
          | Inr _ \<Rightarrow> Inr (self\<lparr>rules := rules self @ [new_rule]\<rparr>)))"

text \<open>
  The list comprehension of line 113,
  \<^verbatim>\<open>[rule.get_matching_degree(X) for rule in self.rules]\<close>: an exception of one rule ends
  the comprehension.
\<close>

fun matching_degrees :: "Rule list \<Rightarrow> AttributeInput \<Rightarrow> error + pyval list" where
  "matching_degrees [] X = Inr []"
| "matching_degrees (rule # rest) X =
     (case get_matching_degree rule X of Inl e \<Rightarrow> Inl e
      | Inr a \<Rightarrow>
         (case matching_degrees rest X of Inl e \<Rightarrow> Inl e
          | Inr as \<Rightarrow> Inr (a # as)))"

text \<open>
  \<^verbatim>\<open>RuleBaseModel.run\<close>: the names of the input are checked against \<^verbatim>\<open>U\<close>, the matching
  degrees are computed into the local \<^verbatim>\<open>alpha\<close>, and the function ends there, without a
  \<^verbatim>\<open>return\<close> statement: the caller receives \<^verbatim>\<open>None\<close>.
\<close>

definition run :: "RuleBaseModel \<Rightarrow> AttributeInput \<Rightarrow> error + pyval" where
  "run self X =
     (case assert_all (\<lambda>U_i. py_in (Val (PStr U_i)) (map (Val \<circ> PStr) (U self))) (keys (attr_input X)) of
        Inl e \<Rightarrow> Inl e
      | Inr _ \<Rightarrow>
         (case matching_degrees (rules self) X of Inl e \<Rightarrow> Inl e
          | Inr alpha \<Rightarrow> Inr PNone))"

subsection \<open>A small rule base\<close>

text \<open>
  One attribute \<^verbatim>\<open>temp\<close> with the referential values \<^verbatim>\<open>low\<close> and \<^verbatim>\<open>high\<close>, the consequents
  \<^verbatim>\<open>ok\<close> and \<^verbatim>\<open>fail\<close>, the rule "if \<^verbatim>\<open>temp\<close> is \<^verbatim>\<open>high\<close> then \<^verbatim>\<open>fail\<close> with belief 0.9",
  and the observation that \<^verbatim>\<open>temp\<close> is \<^verbatim>\<open>high\<close> with belief 1. The float literal \<^verbatim>\<open>0.9\<close> is
  the binary64 number nearest to 9/10.
\<close>

definition example_model :: RuleBaseModel where
  "example_model =
     \<lparr>U = [''temp''], A = [(''temp'', [PStr ''low'', PStr ''high''])],
      D = [PStr ''ok'', PStr ''fail''], F = PNone, rules = []\<rparr>"

definition example_rule :: Rule where
  "example_rule =
     \<lparr>A_values = [(''temp'', PStr ''high'')], delta = [(''temp'', Finite 1)],
      theta = Finite 1, beta = [(PStr ''fail'', PFloat (fl64 (9 / 10)))]\<rparr>"

definition example_input :: AttributeInput where
  "example_input = \<lparr>attr_input = [(''temp'', PTuple [PStr ''high'', PFloat (Finite 1)])]\<rparr>"

section \<open>Properties\<close>

subsection \<open>Membership tests and assertion loops\<close>

lemma py_in_DictKeys_names: "\<not> py_in (DictKeys ks) (map (Val \<circ> PStr) us)"
  by (induction us) (simp_all add: py_in_def)


lemma assert_all_cases:
  "assert_all P xs = (if list_all P xs then Inr () else Inl (AssertionError []))"
  by (induction xs) simp_all

lemma add_rule_raises: "add_rule m r = Inl (AssertionError [])"
  by (simp add: add_rule_def py_in_DictKeys_names)

subsection \<open>Floats: rounding, maximum and quotient\<close>




lemma fold_py_max_zeros:
  "list_all (\<lambda>d. d = Finite 0) ds \<Longrightarrow>
     fold (\<lambda>item maxitem. if py_gt item maxitem then item else maxitem) ds (Finite 0) = Finite 0"
  by (induction ds) simp_all

lemma py_max_zeros:
  "ds \<noteq> [] \<Longrightarrow> list_all (\<lambda>d. d = Finite 0) ds \<Longrightarrow> py_max ds = Inr (Finite 0)"
  by (cases ds) (simp_all add: fold_py_max_zeros)




subsection \<open>The matching degree\<close>

lemma py_xor_float: "py_xor x (PFloat n) = Inl TypeError"
  by (cases x) simp_all

lemma weighted_alpha_nonempty: "ks \<noteq> [] \<Longrightarrow> \<exists>e. weighted_alpha ai nd ks = Inl e"
  by (cases ks) (auto simp add: py_xor_float split: sum.splits)

lemma norm_delta_items_eq:
  "norm_delta_items dl items =
     (if items = [] then Inr []
      else case py_max (dict_values dl) of Inl e \<Rightarrow> Inl e
           | Inr m \<Rightarrow> if m = Finite 0 then Inl ZeroDivisionError
                      else Inr (map (\<lambda>(a, d). (a, float_div d m)) items))"
  by (induction dl items rule: norm_delta_items.induct)
     (auto simp add: py_truediv_def split: sum.splits)


lemma norm_delta_extra:
  "norm_delta [(''temp'', Finite 1), (''extra'', Finite 2)]
     = Inr [(''temp'', Finite (1 / 2)), (''extra'', Finite 1)]"
  by code_simp


lemma assert_input_cases:
  "assert_input r X =
     (if set (keys (A_values r)) \<subseteq> set (keys (attr_input X)) then Inr ()
      else Inl (AssertionError []))"
  by (auto simp add: assert_input_def Let_def)

lemma get_matching_degree_raises:
  "A_values r \<noteq> [] \<Longrightarrow> \<exists>e. get_matching_degree r X = Inl e"
proof -
  assume "A_values r \<noteq> []"
  then have ne: "keys (A_values r) \<noteq> []"
    by (simp add: keys_def)
  show ?thesis
  proof (cases "assert_input r X")
    case (Inl e)
    then show ?thesis by (simp add: get_matching_degree_def)
  next
    case chk: (Inr u)
    show ?thesis
    proof (cases "norm_delta (delta r)")
      case (Inl e)
      with chk show ?thesis by (simp add: get_matching_degree_def)
    next
      case (Inr nd)
      from weighted_alpha_nonempty [OF ne]
      obtain e where "weighted_alpha (attr_input X) nd (keys (A_values r)) = Inl e"
        by blast
      with chk Inr show ?thesis by (simp add: get_matching_degree_def)
    qed
  qed
qed

subsection \<open>Inference\<close>


lemma matching_degrees_raises:
  "r \<in> set rs \<Longrightarrow> isl (get_matching_degree r X) \<Longrightarrow> isl (matching_degrees rs X)"
  by (induction rs) (auto split: sum.splits)

lemma run_raises_with_rule:
  "r \<in> set (rules m) \<Longrightarrow> isl (get_matching_degree r X) \<Longrightarrow> isl (run m X)"
  using matching_degrees_raises [of r "rules m" X]
  by (auto simp add: run_def split: sum.splits)

subsection \<open>Claims\<close>

text \<open>
  C1. The claim: for an input whose attribute names are all declared, \<^verbatim>\<open>run\<close> returns a
  belief distribution over the consequents and a residual ignorance, which sum to 1.
  The code: \<^verbatim>\<open>run\<close> stops after the matching degrees and has no \<^verbatim>\<open>return\<close>. On the example
  model (no rules) and the example input, which passes the vocabulary check, it returns
  \<^verbatim>\<open>None\<close>; and on every model and input it either raises or returns \<^verbatim>\<open>None\<close>, never a
  distribution.
\<close>

theorem run_returns_None:
  "run example_model example_input = Inr PNone
   \<and> (\<forall>m X. isl (run m X) \<or> run m X = Inr PNone)"
proof
  show "run example_model example_input = Inr PNone"
    by (simp add: run_def example_model_def example_input_def keys_def py_in_def)
next
  show "\<forall>m X. isl (run m X) \<or> run m X = Inr PNone"
    by (simp add: run_def split: sum.splits)
qed

text \<open>
  C2. The claim: with evidence for all antecedents, \<^verbatim>\<open>get_matching_degree\<close> returns the
  product of the powers \<open>m_a ^ norm_weight[a]\<close>, a number in [0,1]. The code applies the
  operator \<^verbatim>\<open>^\<close>, which is exclusive or, to the whole evidence entry and the normalised
  weight, a float: on the example rule and input, where the claimed value is 1, it
  raises \<^verbatim>\<open>TypeError\<close>; and for every rule with at least one antecedent it raises.
\<close>

theorem get_matching_degree_xor_raises:
  "get_matching_degree example_rule example_input = Inl TypeError
   \<and> (\<forall>r X. A_values r = [] \<or> isl (get_matching_degree r X))"
proof
  show "get_matching_degree example_rule example_input = Inl TypeError"
    by (simp add: get_matching_degree_def assert_input_def norm_delta_def example_rule_def
        example_input_def keys_def dict_values_def py_truediv_def getitem_def)
next
  show "\<forall>r X. A_values r = [] \<or> isl (get_matching_degree r X)"
  proof (intro allI)
    fix r X
    show "A_values r = [] \<or> isl (get_matching_degree r X)"
    proof (cases "A_values r = []")
      case True
      then show ?thesis by simp
    next
      case False
      from get_matching_degree_raises [OF False]
      obtain e where "get_matching_degree r X = Inl e" by blast
      then show ?thesis by simp
    qed
  qed
qed

text \<open>
  C3. The claim: \<^verbatim>\<open>add_rule\<close> rejects a rule that breaks I1--I4 and appends every rule that
  satisfies them. The code: the first test asks whether the view of the rule's keys, as
  one object, is an element of the list of attribute names, which it never is. The
  example rule is accepted by \<^verbatim>\<open>Rule.__init__\<close> and passes the two later loops of
  \<^verbatim>\<open>add_rule\<close> against the example model, yet \<^verbatim>\<open>add_rule\<close> raises \<^verbatim>\<open>AssertionError\<close> on it, as
  it does on every rule and every model.
\<close>

theorem add_rule_rejects_valid_rule:
  "Rule_init [(''temp'', PStr ''high'')] [(''temp'', Finite 1)] (Finite 1)
       [(PStr ''fail'', PFloat (fl64 (9 / 10)))]
     = Inr example_rule
   \<and> check_A_values (A example_model) (A_values example_rule) = Inr ()
   \<and> assert_all (\<lambda>D_n. py_in (Val D_n) (map Val (D example_model))) (keys (beta example_rule))
       = Inr ()
   \<and> add_rule example_model example_rule = Inl (AssertionError [])
   \<and> (\<forall>m r. add_rule m r = Inl (AssertionError []))"
proof (intro conjI)
  show "Rule_init [(''temp'', PStr ''high'')] [(''temp'', Finite 1)] (Finite 1)
       [(PStr ''fail'', PFloat (fl64 (9 / 10)))]
     = Inr example_rule"
    by (simp add: Rule_init_def example_rule_def keys_def)
  show "check_A_values (A example_model) (A_values example_rule) = Inr ()"
    by (simp add: example_model_def example_rule_def getitem_def py_in_def)
  show "assert_all (\<lambda>D_n. py_in (Val D_n) (map Val (D example_model))) (keys (beta example_rule))
       = Inr ()"
    by (simp add: example_model_def example_rule_def keys_def py_in_def)
  show "add_rule example_model example_rule = Inl (AssertionError [])"
    by (rule add_rule_raises)
  show "\<forall>m r. add_rule m r = Inl (AssertionError [])"
    by (simp add: add_rule_raises)
qed

text \<open>
  C4, as stated: when a rule lacks evidence for one of its antecedents, \<^verbatim>\<open>run\<close> counts the
  rule as not activated and completes. It does not: with the example rule in the rule
  list and an input without \<^verbatim>\<open>temp\<close>, the assertion of \<^verbatim>\<open>_assert_input\<close> leaves \<^verbatim>\<open>run\<close>.
\<close>

theorem run_missing_evidence_counterexample:
  "run (example_model\<lparr>rules := [example_rule]\<rparr>) \<lparr>attr_input = []\<rparr> = Inl (AssertionError [])"
  by (simp add: run_def example_model_def example_rule_def get_matching_degree_def
      assert_input_def keys_def)

text \<open>
  C4, amended: when some rule of the model has an antecedent attribute that the input
  does not mention, \<^verbatim>\<open>get_matching_degree\<close> of that rule raises \<^verbatim>\<open>AssertionError\<close> and \<^verbatim>\<open>run\<close>
  raises as well; nothing in \<^verbatim>\<open>run\<close> catches the exception.
\<close>

theorem run_missing_evidence_raises:
  assumes "r \<in> set (rules m)"
    and "\<not> set (keys (A_values r)) \<subseteq> set (keys (attr_input X))"
  shows "get_matching_degree r X = Inl (AssertionError []) \<and> isl (run m X)"
proof -
  from assms(2) have g: "get_matching_degree r X = Inl (AssertionError [])"
    by (simp add: get_matching_degree_def assert_input_cases)
  then have "isl (get_matching_degree r X)"
    by simp
  with assms(1) have "isl (run m X)"
    by (rule run_raises_with_rule)
  with g show ?thesis
    by simp
qed

text \<open>
  C4, an instance: the model declares \<^verbatim>\<open>temp\<close> and \<^verbatim>\<open>pressure\<close>, its rule needs \<^verbatim>\<open>temp\<close>, and
  the input, which passes the vocabulary check, has evidence for \<^verbatim>\<open>pressure\<close> only.
\<close>

theorem run_missing_evidence_raises_witness:
  "example_rule \<in> set (rules (example_model\<lparr>U := [''temp'', ''pressure''], rules := [example_rule]\<rparr>))
   \<and> \<not> set (keys (A_values example_rule))
         \<subseteq> set (keys (attr_input \<lparr>attr_input = [(''pressure'', PTuple [PStr ''high'', PFloat (Finite 1)])]\<rparr>))
   \<and> get_matching_degree example_rule \<lparr>attr_input = [(''pressure'', PTuple [PStr ''high'', PFloat (Finite 1)])]\<rparr>
       = Inl (AssertionError [])
   \<and> isl (run (example_model\<lparr>U := [''temp'', ''pressure''], rules := [example_rule]\<rparr>)
             \<lparr>attr_input = [(''pressure'', PTuple [PStr ''high'', PFloat (Finite 1)])]\<rparr>)"
proof -
  have h1: "example_rule \<in> set (rules (example_model\<lparr>U := [''temp'', ''pressure''], rules := [example_rule]\<rparr>))"
    by simp
  have h2: "\<not> set (keys (A_values example_rule))
         \<subseteq> set (keys (attr_input \<lparr>attr_input = [(''pressure'', PTuple [PStr ''high'', PFloat (Finite 1)])]\<rparr>))"
    by (simp add: example_rule_def keys_def)
  from run_missing_evidence_raises [OF h1 h2] h1 h2 show ?thesis
    by blast
qed







text \<open>
  C7, as stated: a rule whose weights are all zero is turned away because of its weights
  before it can reach \<^verbatim>\<open>get_matching_degree\<close>, and \<^verbatim>\<open>run\<close> answers zero total activation
  with the full-ignorance result. In the code \<^verbatim>\<open>Rule.__init__\<close> accepts the rule with
  weight 0 for \<^verbatim>\<open>temp\<close>, its matching degree divides by zero, \<^verbatim>\<open>run\<close> on a model holding it
  raises \<^verbatim>\<open>ZeroDivisionError\<close>, and \<^verbatim>\<open>run\<close> on a model without rules returns \<^verbatim>\<open>None\<close>.
\<close>

theorem zero_weights_counterexample:
  "Rule_init [(''temp'', PStr ''high'')] [(''temp'', Finite 0)] (Finite 1)
       [(PStr ''fail'', PFloat (fl64 (9 / 10)))]
     = Inr (example_rule\<lparr>delta := [(''temp'', Finite 0)]\<rparr>)
   \<and> get_matching_degree (example_rule\<lparr>delta := [(''temp'', Finite 0)]\<rparr>) example_input
     = Inl ZeroDivisionError
   \<and> run (example_model\<lparr>rules := [example_rule\<lparr>delta := [(''temp'', Finite 0)]\<rparr>]\<rparr>) example_input
     = Inl ZeroDivisionError
   \<and> run example_model example_input = Inr PNone"
  by (simp add: Rule_init_def run_def get_matching_degree_def assert_input_def norm_delta_def
      example_model_def example_rule_def example_input_def keys_def dict_values_def
      py_truediv_def py_in_def)

text \<open>
  C7, amended: no operation looks at the values of the weights. A rule with a non-empty
  \<^verbatim>\<open>delta\<close> whose weights are all zero is accepted by \<^verbatim>\<open>Rule.__init__\<close> as soon as \<^verbatim>\<open>delta\<close>
  covers the antecedents; whether \<^verbatim>\<open>add_rule\<close> raises does not depend on \<^verbatim>\<open>delta\<close>; for an
  input with evidence for all antecedents \<^verbatim>\<open>get_matching_degree\<close> raises
  \<^verbatim>\<open>ZeroDivisionError\<close>; and \<^verbatim>\<open>run\<close> on a model that holds the rule raises.
\<close>

theorem zero_weights_not_rejected:
  assumes "delta r \<noteq> []"
    and "list_all (\<lambda>d. d = Finite 0) (dict_values (delta r))"
    and "set (keys (A_values r)) \<subseteq> set (keys (delta r))"
    and "set (keys (A_values r)) \<subseteq> set (keys (attr_input X))"
    and "r \<in> set (rules m)"
  shows "Rule_init (A_values r) (delta r) (theta r) (beta r) = Inr r
    \<and> isl (add_rule m' (r\<lparr>delta := dl\<rparr>)) = isl (add_rule m' r)
    \<and> get_matching_degree r X = Inl ZeroDivisionError
    \<and> isl (run m X)"
proof (intro conjI)
  from assms(3) show "Rule_init (A_values r) (delta r) (theta r) (beta r) = Inr r"
    by (auto simp add: Rule_init_def assert_all_cases list_all_iff)
  show "isl (add_rule m' (r\<lparr>delta := dl\<rparr>)) = isl (add_rule m' r)"
    by (simp add: add_rule_def split: sum.splits)
  from assms(1) have ne: "dict_values (delta r) \<noteq> []"
    by (simp add: dict_values_def)
  from ne assms(2) have "py_max (dict_values (delta r)) = Inr (Finite 0)"
    by (rule py_max_zeros)
  with assms(1,4) show g: "get_matching_degree r X = Inl ZeroDivisionError"
    by (simp add: get_matching_degree_def assert_input_cases norm_delta_def norm_delta_items_eq)
  then have "isl (get_matching_degree r X)"
    by simp
  with assms(5) show "isl (run m X)"
    by (rule run_raises_with_rule)
qed

text \<open>
  C7, an instance: the example rule with weight 0 for \<^verbatim>\<open>temp\<close>, on the example input.
\<close>

theorem zero_weights_not_rejected_witness:
  "Rule_init (A_values (example_rule\<lparr>delta := [(''temp'', Finite 0)]\<rparr>)) (delta (example_rule\<lparr>delta := [(''temp'', Finite 0)]\<rparr>))
       (theta (example_rule\<lparr>delta := [(''temp'', Finite 0)]\<rparr>)) (beta (example_rule\<lparr>delta := [(''temp'', Finite 0)]\<rparr>))
     = Inr (example_rule\<lparr>delta := [(''temp'', Finite 0)]\<rparr>)
   \<and> isl (add_rule example_model (example_rule\<lparr>delta := [(''temp'', Finite 0)]\<rparr>\<lparr>delta := [(''temp'', Finite 1)]\<rparr>))
       = isl (add_rule example_model (example_rule\<lparr>delta := [(''temp'', Finite 0)]\<rparr>))
   \<and> get_matching_degree (example_rule\<lparr>delta := [(''temp'', Finite 0)]\<rparr>) example_input = Inl ZeroDivisionError
   \<and> isl (run (example_model\<lparr>rules := [example_rule\<lparr>delta := [(''temp'', Finite 0)]\<rparr>]\<rparr>) example_input)"
proof -
  have h1: "delta (example_rule\<lparr>delta := [(''temp'', Finite 0)]\<rparr>) \<noteq> []"
    by simp
  have h2: "list_all (\<lambda>d. d = Finite 0) (dict_values (delta (example_rule\<lparr>delta := [(''temp'', Finite 0)]\<rparr>)))"
    by (simp add: dict_values_def)
  have h3: "set (keys (A_values (example_rule\<lparr>delta := [(''temp'', Finite 0)]\<rparr>)))
      \<subseteq> set (keys (delta (example_rule\<lparr>delta := [(''temp'', Finite 0)]\<rparr>)))"
    by (simp add: example_rule_def keys_def)
  have h4: "set (keys (A_values (example_rule\<lparr>delta := [(''temp'', Finite 0)]\<rparr>)))
      \<subseteq> set (keys (attr_input example_input))"
    by (simp add: example_rule_def example_input_def keys_def)
  have h5: "example_rule\<lparr>delta := [(''temp'', Finite 0)]\<rparr>
      \<in> set (rules (example_model\<lparr>rules := [example_rule\<lparr>delta := [(''temp'', Finite 0)]\<rparr>]\<rparr>))"
    by simp
  show ?thesis
    by (rule zero_weights_not_rejected [OF h1 h2 h3 h4 h5])
qed

text \<open>
  C8. A rule that \<^verbatim>\<open>Rule.__init__\<close> returns has a weight for every antecedent: the
  constructor raises \<^verbatim>\<open>AssertionError\<close> when some key of \<^verbatim>\<open>A_values\<close> is not a key of
  \<^verbatim>\<open>delta\<close>, and otherwise returns the rule with the four fields as given.
\<close>

theorem Rule_init_weights_cover_antecedents:
  "(Rule_init av dl th be = Inr r \<longrightarrow> set (keys (A_values r)) \<subseteq> set (keys (delta r)))
   \<and> (\<not> set (keys av) \<subseteq> set (keys dl) \<longrightarrow> Rule_init av dl th be = Inl (AssertionError []))
   \<and> (set (keys av) \<subseteq> set (keys dl) \<longrightarrow>
        Rule_init av dl th be = Inr \<lparr>A_values = av, delta = dl, theta = th, beta = be\<rparr>)"
  by (auto simp add: Rule_init_def assert_all_cases list_all_iff)

text \<open>
  C8, two instances: the example rule is constructed and its weights cover its
  antecedents; with a second antecedent \<^verbatim>\<open>pressure\<close> and no weight for it the constructor
  raises.
\<close>

theorem Rule_init_weights_cover_antecedents_witness:
  "Rule_init [(''temp'', PStr ''high'')] [(''temp'', Finite 1)] (Finite 1)
       [(PStr ''fail'', PFloat (fl64 (9 / 10)))] = Inr example_rule
   \<and> set (keys (A_values example_rule)) \<subseteq> set (keys (delta example_rule))
   \<and> \<not> set (keys [(''temp'', PStr ''high''), (''pressure'', PStr ''low'')]) \<subseteq> set (keys [(''temp'', Finite 1)])
   \<and> Rule_init [(''temp'', PStr ''high''), (''pressure'', PStr ''low'')] [(''temp'', Finite 1)] (Finite 1)
        [(PStr ''fail'', PFloat (fl64 (9 / 10)))] = Inl (AssertionError [])"
proof -
  have h1: "set (keys [(''temp'', PStr ''high'')]) \<subseteq> set (keys [(''temp'', Finite 1)])"
    by (simp add: keys_def)
  have h2: "\<not> set (keys [(''temp'', PStr ''high''), (''pressure'', PStr ''low'')]) \<subseteq> set (keys [(''temp'', Finite 1)])"
    by (simp add: keys_def)
  have e: "\<lparr>A_values = [(''temp'', PStr ''high'')], delta = [(''temp'', Finite 1)], theta = Finite 1,
      beta = [(PStr ''fail'', PFloat (fl64 (9 / 10)))]\<rparr> = example_rule"
    by (simp add: example_rule_def)
  from Rule_init_weights_cover_antecedents
      [of "[(''temp'', PStr ''high'')]" "[(''temp'', Finite 1)]" "Finite 1"
        "[(PStr ''fail'', PFloat (fl64 (9 / 10)))]" example_rule]
    Rule_init_weights_cover_antecedents
      [of "[(''temp'', PStr ''high''), (''pressure'', PStr ''low'')]" "[(''temp'', Finite 1)]" "Finite 1"
        "[(PStr ''fail'', PFloat (fl64 (9 / 10)))]" example_rule]
    h1 h2 e
  show ?thesis
    by simp
qed

text \<open>
  C9. The claim: the divisor is the maximum over all entries of \<^verbatim>\<open>delta\<close>, so a weight for
  a further attribute that exceeds every antecedent weight keeps every antecedent below
  the normalised weight 1 and changes the matching degree. With the power that
  \<^verbatim>\<open>get_matching_degree\<close> is meant to compute this is so: for the belief 1/2 in \<^verbatim>\<open>temp\<close>,
  the example rule would give \<open>(1/2) ^ 1\<close> and the same rule with the further weight 2
  for \<^verbatim>\<open>extra\<close> would give \<open>(1/2) ^ (1/2)\<close>. The code does compute the normalised weight
  1/2 for \<^verbatim>\<open>temp\<close>, but both rules end in the \<^verbatim>\<open>TypeError\<close> of the operator \<^verbatim>\<open>^\<close>: the
  further weight changes nothing in the outcome.
\<close>

theorem extra_weight_same_outcome:
  "norm_delta (delta (example_rule\<lparr>delta := [(''temp'', Finite 1), (''extra'', Finite 2)]\<rparr>))
     = Inr [(''temp'', Finite (1 / 2)), (''extra'', Finite 1)]
   \<and> get_matching_degree example_rule
       \<lparr>attr_input = [(''temp'', PTuple [PStr ''high'', PFloat (Finite (1 / 2))])]\<rparr>
     = Inl TypeError
   \<and> get_matching_degree (example_rule\<lparr>delta := [(''temp'', Finite 1), (''extra'', Finite 2)]\<rparr>)
       \<lparr>attr_input = [(''temp'', PTuple [PStr ''high'', PFloat (Finite (1 / 2))])]\<rparr>
     = Inl TypeError"
proof (intro conjI)
  show "norm_delta (delta (example_rule\<lparr>delta := [(''temp'', Finite 1), (''extra'', Finite 2)]\<rparr>))
     = Inr [(''temp'', Finite (1 / 2)), (''extra'', Finite 1)]"
    by (simp add: norm_delta_extra)
  show "get_matching_degree example_rule
       \<lparr>attr_input = [(''temp'', PTuple [PStr ''high'', PFloat (Finite (1 / 2))])]\<rparr>
     = Inl TypeError"
    by (simp add: get_matching_degree_def assert_input_def norm_delta_def example_rule_def
        keys_def dict_values_def py_truediv_def getitem_def)
  show "get_matching_degree (example_rule\<lparr>delta := [(''temp'', Finite 1), (''extra'', Finite 2)]\<rparr>)
       \<lparr>attr_input = [(''temp'', PTuple [PStr ''high'', PFloat (Finite (1 / 2))])]\<rparr>
     = Inl TypeError"
    by (simp add: get_matching_degree_def assert_input_def norm_delta_def example_rule_def
        keys_def dict_values_def py_truediv_def getitem_def)
qed

text \<open>
  C10. \<^verbatim>\<open>AttributeInput.__init__\<close> is total and stores the mapping it is given unchanged,
  whatever the belief degrees in it are; an input that gives \<^verbatim>\<open>temp\<close> the belief degree 7
  is constructed and passes through \<^verbatim>\<open>run\<close> unchecked.
\<close>

theorem AttributeInput_init_total:
  "(\<forall>ai. AttributeInput_init ai = Inr \<lparr>attr_input = ai\<rparr>)
   \<and> AttributeInput_init [(''temp'', PTuple [PStr ''high'', PFloat (Finite 7)])]
       = Inr \<lparr>attr_input = [(''temp'', PTuple [PStr ''high'', PFloat (Finite 7)])]\<rparr>
   \<and> run example_model \<lparr>attr_input = [(''temp'', PTuple [PStr ''high'', PFloat (Finite 7)])]\<rparr> = Inr PNone"
  by (simp add: AttributeInput_init_def run_def example_model_def keys_def py_in_def)

end
